theory Spec2Isabelle
  imports Complex_Main
begin

section \<open>AttendEase: the data model (backend/models.py)\<close>

text \<open>
  The enumerations of models.py. The value of each member is its own name, so the
  string that \<open>to_dict\<close> emits for a status is given by \<open>status_value\<close>.
\<close>

datatype UserRole = ADMIN | LECTURER | STUDENT

datatype CourseStatus = ACTIVE | INACTIVE | COMPLETED

datatype AttendanceStatus = PRESENT | ABSENT | LATE | EXCUSED

fun status_value :: "AttendanceStatus \<Rightarrow> string" where
  "status_value PRESENT = ''PRESENT''"
| "status_value ABSENT = ''ABSENT''"
| "status_value LATE = ''LATE''"
| "status_value EXCUSED = ''EXCUSED''"

text \<open>
  Python's \<open>datetime.date\<close>, \<open>datetime.time\<close> (naive) and \<open>datetime.datetime\<close>.
  Two naive times compare as the tuples (hour, minute, second, microsecond).
\<close>

record pydate =
  year :: nat
  month :: nat
  day :: nat

record pytime =
  hour :: nat
  minute :: nat
  second :: nat
  microsecond :: nat

record pydatetime =
  dt_date :: pydate
  dt_time :: pytime

definition time_gt :: "pytime \<Rightarrow> pytime \<Rightarrow> bool" where
  "time_gt a b \<longleftrightarrow>
     hour a > hour b \<or> (hour a = hour b \<and>
      (minute a > minute b \<or> (minute a = minute b \<and>
        (second a > second b \<or> (second a = second b \<and>
          microsecond a > microsecond b)))))"

definition date_le :: "pydate \<Rightarrow> pydate \<Rightarrow> bool" where
  "date_le a b \<longleftrightarrow>
     year a < year b \<or> (year a = year b \<and>
      (month a < month b \<or> (month a = month b \<and> day a \<le> day b)))"

text \<open>
  The tables. Only the columns that the modelled handlers read or write are kept; a
  row's primary key is its first field. A table is the list of its rows in the order
  in which an unordered query returns them.
\<close>

record user =
  u_id :: int
  u_role :: UserRole

record student =
  st_id :: int
  st_user_id :: int

record course =
  c_id :: int
  c_lecturer_id :: int
  c_status :: CourseStatus

record enrollment =
  e_id :: int
  e_student_id :: int
  e_course_id :: int
  e_enrolled_at :: pydatetime
  e_is_active :: bool

record session =
  s_id :: int
  s_course_id :: int
  s_session_date :: pydate
  s_start_time :: pytime
  s_end_time :: pytime
  s_attendance_open :: bool

record attendance_record =
  a_id :: int
  a_session_id :: int
  a_student_id :: int
  a_status :: AttendanceStatus
  a_marked_at :: pydatetime
  a_marked_by :: "int option"
  a_notes :: "string option"

record db =
  users :: "user list"
  students :: "student list"
  courses :: "course list"
  enrollments :: "enrollment list"
  sessions :: "session list"
  attendance_records :: "attendance_record list"

text \<open>
  The two clocks the handlers read: \<open>datetime.now()\<close> (local time) and
  \<open>datetime.utcnow()\<close>, the column default of \<open>marked_at\<close> and \<open>enrolled_at\<close>.
\<close>

record clock =
  now :: pydatetime
  utcnow :: pydatetime

subsection \<open>The query interface\<close>

text \<open>
  \<open>Model.query.get(k)\<close> and \<open>query.filter_by(...).first()\<close> return the first
  matching row or None; \<open>.all()\<close> is \<open>filter\<close>. A new row receives the next
  free primary key.
\<close>

definition query_get :: "('r \<Rightarrow> int) \<Rightarrow> 'r list \<Rightarrow> int \<Rightarrow> 'r option" where
  "query_get pk rows k = find (\<lambda>r. pk r = k) rows"

definition next_id :: "int list \<Rightarrow> int" where
  "next_id ids = foldr max ids 0 + 1"

text \<open>
  The JWT identity. routes/auth.py issues every token with \<open>identity=str(user.id)\<close>,
  so \<open>get_jwt_identity()\<close> is always the decimal string of a user id. \<open>Sub n\<close>
  stands for the string \<open>str(n)\<close>; \<open>py_int\<close> is \<open>int(current_user_id)\<close>. The
  database coerces the string where a handler passes it to a query or stores it in an
  integer column. A Python comparison of an int with a str is never equal.
\<close>

datatype jwt_identity = Sub int

fun py_int :: "jwt_identity \<Rightarrow> int" where
  "py_int (Sub n) = n"

definition int_ne_str :: "int \<Rightarrow> jwt_identity \<Rightarrow> bool" where
  "int_ne_str n s \<longleftrightarrow> True"

text \<open>
  \<open>user.student_profile\<close>: the handlers use it as the one Student row of the user,
  or a falsy value when there is none.
\<close>

definition student_profile :: "db \<Rightarrow> user \<Rightarrow> student option" where
  "student_profile d u = find (\<lambda>s. st_user_id s = u_id u) (students d)"

definition active_enrollment :: "db \<Rightarrow> int \<Rightarrow> int \<Rightarrow> enrollment option" where
  "active_enrollment d sid cid =
     find (\<lambda>e. e_student_id e = sid \<and> e_course_id e = cid \<and> e_is_active e = True)
       (enrollments d)"

definition existing_attendance :: "db \<Rightarrow> int \<Rightarrow> int \<Rightarrow> attendance_record option" where
  "existing_attendance d sess_id stud_id =
     find (\<lambda>r. a_session_id r = sess_id \<and> a_student_id r = stud_id)
       (attendance_records d)"

subsection \<open>Responses\<close>

text \<open>
  Every error response of the modelled handlers, with its HTTP status. The
  \<open>except Exception\<close> clause of a handler turns any exception into a 500.
\<close>

datatype py_exception = AttributeError | ZeroDivisionError

datatype error =
    OnlyStudents
  | StudentProfileNotFound
  | SessionIdRequired
  | SessionNotFound
  | SessionClosed
  | NotEnrolled
  | DuplicateCheckIn attendance_record
  | UserNotFound
  | Unauthorized
  | StudentNotFound
  | InvalidDateFrom
  | InvalidDateTo
  | CourseNotFound
  | OnlyLecturers
  | FieldRequired string
  | InvalidStatus
  | StudentNotEnrolled
  | CourseNotActive
  | ConflictError
  | ServerFault py_exception

fun http_status :: "error \<Rightarrow> nat" where
  "http_status OnlyStudents = 403"
| "http_status StudentProfileNotFound = 404"
| "http_status SessionIdRequired = 400"
| "http_status SessionNotFound = 404"
| "http_status SessionClosed = 400"
| "http_status NotEnrolled = 403"
| "http_status (DuplicateCheckIn r) = 400"
| "http_status UserNotFound = 404"
| "http_status Unauthorized = 403"
| "http_status StudentNotFound = 404"
| "http_status InvalidDateFrom = 400"
| "http_status InvalidDateTo = 400"
| "http_status CourseNotFound = 404"
| "http_status OnlyLecturers = 403"
| "http_status (FieldRequired f) = 400"
| "http_status InvalidStatus = 400"
| "http_status StudentNotEnrolled = 403"
| "http_status CourseNotActive = 400"
| "http_status ConflictError = 400"
| "http_status (ServerFault e) = 500"

section \<open>Student check-in (routes/attendance.py, checkin)\<close>

text \<open>
  The JSON body of the request: \<open>data.get('session_id')\<close> is None when the key is
  missing. The handler returns its response and the database it leaves behind.
\<close>

record checkin_request =
  req_session_id :: "int option"

definition checkin_status :: "pytime \<Rightarrow> session \<Rightarrow> AttendanceStatus" where
  "checkin_status t sess = (if time_gt t (s_start_time sess) then LATE else PRESENT)"

definition checkin ::
  "clock \<Rightarrow> db \<Rightarrow> jwt_identity \<Rightarrow> checkin_request \<Rightarrow> (error + attendance_record) \<times> db" where
  "checkin clk d current_user_id data =
    (case query_get u_id (users d) (py_int current_user_id) of
       None \<Rightarrow> (Inl OnlyStudents, d)
     | Some usr \<Rightarrow>
        if u_role usr \<noteq> STUDENT then (Inl OnlyStudents, d)
        else (case student_profile d usr of
           None \<Rightarrow> (Inl StudentProfileNotFound, d)
         | Some prof \<Rightarrow>
            (case req_session_id data of
               None \<Rightarrow> (Inl SessionIdRequired, d)
             | Some session_id \<Rightarrow>
                if session_id = 0 then (Inl SessionIdRequired, d)
                else (case query_get s_id (sessions d) session_id of
                   None \<Rightarrow> (Inl SessionNotFound, d)
                 | Some sess \<Rightarrow>
                    if \<not> s_attendance_open sess then (Inl SessionClosed, d)
                    else (case active_enrollment d (st_id prof) (s_course_id sess) of
                       None \<Rightarrow> (Inl NotEnrolled, d)
                     | Some enr \<Rightarrow>
                        (case existing_attendance d session_id (st_id prof) of
                           Some existing_record \<Rightarrow> (Inl (DuplicateCheckIn existing_record), d)
                         | None \<Rightarrow>
                            (let attendance =
                                  \<lparr>a_id = next_id (map a_id (attendance_records d)),
                                   a_session_id = session_id,
                                   a_student_id = st_id prof,
                                   a_status = checkin_status (dt_time (now clk)) sess,
                                   a_marked_at = utcnow clk,
                                   a_marked_by = Some (py_int current_user_id),
                                   a_notes = None\<rparr>
                             in (Inr attendance,
                                 d\<lparr>attendance_records := attendance_records d @ [attendance]\<rparr>))))))))"

section \<open>Python numbers in the reported statistics\<close>

text \<open>
  The attendance rates are computed with Python's \<open>/\<close>, \<open>*\<close> and \<open>round\<close> on
  binary floating point numbers. The float operations the handlers use are a parameter
  of the model, so that what is proved of a handler holds for IEEE doubles as for any
  other arithmetic: \<open>truediv a b\<close> is \<open>a / b\<close> for ints with \<open>b \<noteq> 0\<close>,
  \<open>times_int x k\<close> is \<open>x * k\<close>, \<open>round_ndigits x n\<close> is \<open>round(x, n)\<close>.
  A reported number is an int or a float. Division by zero raises, and \<open>round\<close>
  returns an int unchanged when \<open>n \<ge> 0\<close>.
\<close>

record 'f float_ops =
  truediv :: "int \<Rightarrow> int \<Rightarrow> 'f"
  times_int :: "'f \<Rightarrow> int \<Rightarrow> 'f"
  round_ndigits :: "'f \<Rightarrow> nat \<Rightarrow> 'f"

datatype 'f pynum = PyInt int | PyFloat 'f

definition py_truediv :: "'f float_ops \<Rightarrow> int \<Rightarrow> int \<Rightarrow> py_exception + 'f" where
  "py_truediv fl a b = (if b = 0 then Inl ZeroDivisionError else Inr (truediv fl a b))"

fun py_round :: "'f float_ops \<Rightarrow> 'f pynum \<Rightarrow> nat \<Rightarrow> 'f pynum" where
  "py_round fl (PyInt i) n = PyInt i"
| "py_round fl (PyFloat x) n = PyFloat (round_ndigits fl x n)"

text \<open>
  The instance used to evaluate the handlers on concrete inputs: exact rational
  arithmetic, rounding to the nearest multiple of \<open>10 ^ -n\<close> with ties to even.
\<close>

definition round_half_even :: "rat \<Rightarrow> int" where
  "round_half_even y =
     (let f = \<lfloor>y\<rfloor>; r = y - of_int f
      in if r < 1 / 2 then f else if 1 / 2 < r then f + 1
         else if even f then f else f + 1)"

definition exact_ops :: "rat float_ops" where
  "exact_ops =
     \<lparr>truediv = (\<lambda>a b. of_int a / of_int b),
      times_int = (\<lambda>x k. x * of_int k),
      round_ndigits = (\<lambda>x n. of_int (round_half_even (x * 10 ^ n)) / 10 ^ n)\<rparr>"

section \<open>The aggregation views (routes/attendance.py)\<close>

text \<open>
  \<open>Student.query.join(Enrollment).filter(course_id == c, is_active == True).all()\<close>:
  the students that have an active enrollment row in the course, each once.
\<close>

definition enrolled_students :: "db \<Rightarrow> int \<Rightarrow> student list" where
  "enrolled_students d cid =
     filter (\<lambda>s. list_ex (\<lambda>e. e_student_id e = st_id s \<and> e_course_id e = cid \<and>
                               e_is_active e = True) (enrollments d))
       (students d)"

text \<open>
  A condition on the session a record is joined with (\<open>query.join(Session).filter(...)\<close>,
  an inner join on the session's primary key).
\<close>

definition session_satisfies :: "db \<Rightarrow> (session \<Rightarrow> bool) \<Rightarrow> attendance_record \<Rightarrow> bool" where
  "session_satisfies d P r =
     (case query_get s_id (sessions d) (a_session_id r) of None \<Rightarrow> False | Some s \<Rightarrow> P s)"

text \<open>
  What a view shows for one (student, session) pair: the record's \<open>to_dict()\<close>, or
  the literal \<open>{'status': 'ABSENT', 'marked_at': None}\<close>.
\<close>

datatype attendance_dict = RecordDict attendance_record | AbsentDict

fun dict_status :: "attendance_dict \<Rightarrow> string" where
  "dict_status (RecordDict r) = status_value (a_status r)"
| "dict_status AbsentDict = ''ABSENT''"

fun dict_marked_at :: "attendance_dict \<Rightarrow> pydatetime option" where
  "dict_marked_at (RecordDict r) = Some (a_marked_at r)"
| "dict_marked_at AbsentDict = None"

definition to_dict_or_absent :: "attendance_record option \<Rightarrow> attendance_dict" where
  "to_dict_or_absent attendance_record =
     (case attendance_record of Some r \<Rightarrow> RecordDict r | None \<Rightarrow> AbsentDict)"

subsection \<open>Session view (get_session_attendance)\<close>

record session_summary =
  ss_attendance_records :: "(student \<times> attendance_dict) list"
  ss_total_enrolled :: int
  ss_total_present :: int
  ss_total_absent :: int

datatype session_response =
    StudentSession session "attendance_record option"
  | LecturerSession session session_summary
  | AdminSession session "attendance_record list"

definition session_attendance_summary ::
  "student list \<Rightarrow> attendance_record list \<Rightarrow> session_summary" where
  "session_attendance_summary enrolled recs =
     \<lparr>ss_attendance_records =
        map (\<lambda>stu. (stu, to_dict_or_absent (find (\<lambda>record. a_student_id record = st_id stu) recs)))
          enrolled,
      ss_total_enrolled = int (length enrolled),
      ss_total_present =
        int (length (filter (\<lambda>r. a_status r \<in> set [PRESENT, LATE]) recs)),
      ss_total_absent = int (length enrolled) - int (length recs)\<rparr>"

definition get_session_attendance :: "db \<Rightarrow> jwt_identity \<Rightarrow> int \<Rightarrow> error + session_response" where
  "get_session_attendance d current_user_id session_id =
    (case query_get u_id (users d) (py_int current_user_id) of
       None \<Rightarrow> Inl UserNotFound
     | Some usr \<Rightarrow>
        (case query_get s_id (sessions d) session_id of
           None \<Rightarrow> Inl SessionNotFound
         | Some sess \<Rightarrow>
            if u_role usr = STUDENT then
              (case student_profile d usr of
                 None \<Rightarrow> Inl (ServerFault AttributeError)
               | Some prof \<Rightarrow>
                  (case active_enrollment d (st_id prof) (s_course_id sess) of
                     None \<Rightarrow> Inl NotEnrolled
                   | Some enr \<Rightarrow>
                       Inr (StudentSession sess (existing_attendance d session_id (st_id prof)))))
            else if u_role usr = LECTURER then
              (case query_get c_id (courses d) (s_course_id sess) of
                 None \<Rightarrow> Inl (ServerFault AttributeError)
               | Some crs \<Rightarrow>
                  if c_lecturer_id crs \<noteq> py_int current_user_id then Inl Unauthorized
                  else Inr (LecturerSession sess
                         (session_attendance_summary
                            (enrolled_students d (s_course_id sess))
                            (filter (\<lambda>r. a_session_id r = session_id) (attendance_records d)))))
            else Inr (AdminSession sess
                   (filter (\<lambda>r. a_session_id r = session_id) (attendance_records d)))))"

subsection \<open>Student view (get_student_attendance)\<close>

text \<open>
  The query string. \<open>course_id\<close> is None when missing or not an int. A date
  parameter is missing or empty, or not a \<open>%Y-%m-%d\<close> date (\<open>strptime\<close> raises
  ValueError), or parses to a date.
\<close>

datatype date_arg = NoDate | Malformed | Parsed pydate

record student_args =
  arg_course_id :: "int option"
  arg_date_from :: date_arg
  arg_date_to :: date_arg

record 'f student_statistics =
  stat_total_sessions :: int
  stat_present :: int
  stat_late :: int
  stat_absent :: int
  stat_excused :: int
  stat_attendance_rate :: "'f pynum"

definition count_status :: "AttendanceStatus \<Rightarrow> attendance_record list \<Rightarrow> int" where
  "count_status st recs = int (length (filter (\<lambda>r. a_status r = st) recs))"

definition student_statistics ::
  "'f float_ops \<Rightarrow> attendance_record list \<Rightarrow> py_exception + 'f student_statistics" where
  "student_statistics fl recs =
    (let total_sessions = int (length recs);
         present_count = count_status PRESENT recs;
         late_count = count_status LATE recs;
         absent_count = count_status ABSENT recs;
         excused_count = count_status EXCUSED recs
     in case (if total_sessions > 0
              then map_sum id (\<lambda>q. PyFloat (times_int fl q 100))
                     (py_truediv fl (present_count + late_count) total_sessions)
              else Inr (PyInt 0)) of
          Inl e \<Rightarrow> Inl e
        | Inr attendance_rate \<Rightarrow>
            Inr \<lparr>stat_total_sessions = total_sessions,
                 stat_present = present_count,
                 stat_late = late_count,
                 stat_absent = absent_count,
                 stat_excused = excused_count,
                 stat_attendance_rate = py_round fl attendance_rate 2\<rparr>)"

definition student_query :: "db \<Rightarrow> int \<Rightarrow> student_args \<Rightarrow> error + attendance_record list" where
  "student_query d student_id args =
    (let q0 = filter (\<lambda>r. a_student_id r = student_id) (attendance_records d);
         q1 = (case arg_course_id args of
                 None \<Rightarrow> q0
               | Some course_id \<Rightarrow>
                   if course_id = 0 then q0
                   else filter (session_satisfies d (\<lambda>s. s_course_id s = course_id)) q0)
     in case arg_date_from args of
          Malformed \<Rightarrow> Inl InvalidDateFrom
        | df \<Rightarrow>
           (let q2 = (case df of
                        Parsed from_date \<Rightarrow>
                          filter (session_satisfies d (\<lambda>s. date_le from_date (s_session_date s))) q1
                      | _ \<Rightarrow> q1)
            in case arg_date_to args of
                 Malformed \<Rightarrow> Inl InvalidDateTo
               | Parsed to_date \<Rightarrow>
                   Inr (filter (session_satisfies d (\<lambda>s. date_le (s_session_date s) to_date)) q2)
               | NoDate \<Rightarrow> Inr q2))"

definition get_student_attendance ::
  "'f float_ops \<Rightarrow> db \<Rightarrow> jwt_identity \<Rightarrow> int \<Rightarrow> student_args \<Rightarrow>
     error + (student \<times> attendance_record list \<times> 'f student_statistics)" where
  "get_student_attendance fl d current_user_id student_id args =
    (case query_get u_id (users d) (py_int current_user_id) of
       None \<Rightarrow> Inl UserNotFound
     | Some usr \<Rightarrow>
        (case (if u_role usr = STUDENT
               then (case student_profile d usr of
                       None \<Rightarrow> Some (ServerFault AttributeError)
                     | Some prof \<Rightarrow> if st_id prof \<noteq> student_id then Some Unauthorized else None)
               else None) of
           Some e \<Rightarrow> Inl e
         | None \<Rightarrow>
            (case query_get st_id (students d) student_id of
               None \<Rightarrow> Inl StudentNotFound
             | Some stu \<Rightarrow>
                (case student_query d student_id args of
                   Inl e \<Rightarrow> Inl e
                 | Inr recs \<Rightarrow>
                    (case student_statistics fl recs of
                       Inl exn \<Rightarrow> Inl (ServerFault exn)
                     | Inr stats \<Rightarrow> Inr (stu, recs, stats))))))"

subsection \<open>Course matrix view (get_course_attendance)\<close>

record 'f matrix_row =
  mr_student :: student
  mr_sessions :: "(session \<times> attendance_dict) list"
  mr_total_sessions :: int
  mr_present :: int
  mr_late :: int
  mr_absent :: int
  mr_attendance_rate :: "'f pynum"

record 'f course_view =
  cv_course :: course
  cv_sessions :: "session list"
  cv_attendance_matrix :: "'f matrix_row list"
  cv_total_students :: int
  cv_total_sessions :: int
  cv_total_records :: int

definition count_dict_status :: "string list \<Rightarrow> attendance_dict list \<Rightarrow> int" where
  "count_dict_status names student_records =
     int (length (filter (\<lambda>r. dict_status r \<in> set names) student_records))"

definition student_cells ::
  "session list \<Rightarrow> attendance_record list \<Rightarrow> student \<Rightarrow> (session \<times> attendance_dict) list" where
  "student_cells sesss recs stu =
     map (\<lambda>sess. (sess, to_dict_or_absent
            (find (\<lambda>record. a_student_id record = st_id stu \<and> a_session_id record = s_id sess) recs)))
       sesss"

definition student_attendance ::
  "'f float_ops \<Rightarrow> session list \<Rightarrow> attendance_record list \<Rightarrow> student \<Rightarrow>
     py_exception + 'f matrix_row" where
  "student_attendance fl sesss recs stu =
    (let cells = student_cells sesss recs stu;
         student_records = map snd cells;
         present_count = count_dict_status [''PRESENT'', ''LATE''] student_records;
         total_sessions = int (length sesss)
     in case (if total_sessions > 0
              then map_sum id (\<lambda>q. PyFloat (times_int fl q 100))
                     (py_truediv fl present_count total_sessions)
              else Inr (PyInt 0)) of
          Inl e \<Rightarrow> Inl e
        | Inr attendance_rate \<Rightarrow>
            Inr \<lparr>mr_student = stu,
                 mr_sessions = cells,
                 mr_total_sessions = total_sessions,
                 mr_present = count_dict_status [''PRESENT''] student_records,
                 mr_late = count_dict_status [''LATE''] student_records,
                 mr_absent = count_dict_status [''ABSENT''] student_records,
                 mr_attendance_rate = py_round fl attendance_rate 2\<rparr>)"

text \<open>The loop over the enrolled students: the first exception ends the request.\<close>

fun attendance_matrix ::
  "'f float_ops \<Rightarrow> session list \<Rightarrow> attendance_record list \<Rightarrow> student list \<Rightarrow>
     py_exception + 'f matrix_row list" where
  "attendance_matrix fl sesss recs [] = Inr []"
| "attendance_matrix fl sesss recs (stu # rest) =
     (case student_attendance fl sesss recs stu of
        Inl e \<Rightarrow> Inl e
      | Inr row \<Rightarrow>
         (case attendance_matrix fl sesss recs rest of
            Inl e \<Rightarrow> Inl e
          | Inr rows \<Rightarrow> Inr (row # rows)))"

text \<open>
  The ownership test of this handler compares \<open>course.lecturer_id\<close> with the identity
  as it is, without \<open>int(...)\<close>.
\<close>

definition get_course_attendance ::
  "'f float_ops \<Rightarrow> db \<Rightarrow> jwt_identity \<Rightarrow> int \<Rightarrow> error + 'f course_view" where
  "get_course_attendance fl d current_user_id course_id =
    (case query_get u_id (users d) (py_int current_user_id) of
       None \<Rightarrow> Inl Unauthorized
     | Some usr \<Rightarrow>
        if u_role usr \<notin> set [LECTURER, ADMIN] then Inl Unauthorized
        else (case query_get c_id (courses d) course_id of
           None \<Rightarrow> Inl CourseNotFound
         | Some crs \<Rightarrow>
            if u_role usr = LECTURER \<and> int_ne_str (c_lecturer_id crs) current_user_id
            then Inl Unauthorized
            else
             (let sesss = filter (\<lambda>s. s_course_id s = course_id) (sessions d);
                  enrolled = enrolled_students d course_id;
                  recs = filter (session_satisfies d (\<lambda>s. s_course_id s = course_id))
                           (attendance_records d)
              in case attendance_matrix fl sesss recs enrolled of
                   Inl exn \<Rightarrow> Inl (ServerFault exn)
                 | Inr matrix \<Rightarrow>
                     Inr \<lparr>cv_course = crs,
                          cv_sessions = sesss,
                          cv_attendance_matrix = matrix,
                          cv_total_students = int (length enrolled),
                          cv_total_sessions = int (length sesss),
                          cv_total_records = int (length recs)\<rparr>)))"

section \<open>Lecturer marking (routes/attendance.py, mark_attendance)\<close>

text \<open>
  The JSON body: a field is None when its key is missing. \<open>status\<close> is a string of
  ASCII characters; \<open>AttendanceStatus(s.upper())\<close> raises ValueError unless the
  upper-cased string is the value of a member.
\<close>

record mark_request =
  mk_session_id :: "int option"
  mk_student_id :: "int option"
  mk_status :: "string option"
  mk_notes :: "string option"

definition upper_char :: "char \<Rightarrow> char" where
  "upper_char c =
     (let n = (of_char c :: nat) in if 97 \<le> n \<and> n \<le> 122 then char_of (n - 32) else c)"

definition py_upper :: "string \<Rightarrow> string" where
  "py_upper s = map upper_char s"

definition status_of_value :: "string \<Rightarrow> AttendanceStatus option" where
  "status_of_value v =
     (if v = ''PRESENT'' then Some PRESENT
      else if v = ''ABSENT'' then Some ABSENT
      else if v = ''LATE'' then Some LATE
      else if v = ''EXCUSED'' then Some EXCUSED
      else None)"

text \<open>The row a query returned is changed in place; the other rows stay as they are.\<close>

fun update_first :: "('r \<Rightarrow> bool) \<Rightarrow> ('r \<Rightarrow> 'r) \<Rightarrow> 'r list \<Rightarrow> 'r list" where
  "update_first P f [] = []"
| "update_first P f (x # xs) = (if P x then f x # xs else x # update_first P f xs)"

datatype mark_response = Updated attendance_record | Marked attendance_record

fun mark_status :: "mark_response \<Rightarrow> nat" where
  "mark_status (Updated r) = 200"
| "mark_status (Marked r) = 201"

definition mark_attendance ::
  "clock \<Rightarrow> db \<Rightarrow> jwt_identity \<Rightarrow> mark_request \<Rightarrow> (error + mark_response) \<times> db" where
  "mark_attendance clk d current_user_id data =
    (case query_get u_id (users d) (py_int current_user_id) of
       None \<Rightarrow> (Inl OnlyLecturers, d)
     | Some usr \<Rightarrow>
        if u_role usr \<noteq> LECTURER then (Inl OnlyLecturers, d)
        else (case mk_session_id data of
           None \<Rightarrow> (Inl (FieldRequired ''session_id''), d)
         | Some session_id \<Rightarrow>
        (case mk_student_id data of
           None \<Rightarrow> (Inl (FieldRequired ''student_id''), d)
         | Some student_id \<Rightarrow>
        (case mk_status data of
           None \<Rightarrow> (Inl (FieldRequired ''status''), d)
         | Some status_str \<Rightarrow>
        (case query_get s_id (sessions d) session_id of
           None \<Rightarrow> (Inl SessionNotFound, d)
         | Some sess \<Rightarrow>
        (case query_get c_id (courses d) (s_course_id sess) of
           None \<Rightarrow> (Inl (ServerFault AttributeError), d)
         | Some crs \<Rightarrow>
            if c_lecturer_id crs \<noteq> py_int current_user_id then (Inl Unauthorized, d)
            else
        (case query_get st_id (students d) student_id of
           None \<Rightarrow> (Inl StudentNotFound, d)
         | Some stu \<Rightarrow>
        (case status_of_value (py_upper status_str) of
           None \<Rightarrow> (Inl InvalidStatus, d)
         | Some status \<Rightarrow>
        (case active_enrollment d student_id (s_course_id sess) of
           None \<Rightarrow> (Inl StudentNotEnrolled, d)
         | Some enr \<Rightarrow>
        (case existing_attendance d session_id student_id of
           Some existing_record \<Rightarrow>
             (let upd = (\<lambda>r. r\<lparr>a_status := status,
                               a_marked_by := Some (py_int current_user_id),
                               a_marked_at := utcnow clk,
                               a_notes := mk_notes data\<rparr>)
              in (Inr (Updated (upd existing_record)),
                  d\<lparr>attendance_records :=
                      update_first (\<lambda>r. a_session_id r = session_id \<and> a_student_id r = student_id)
                        upd (attendance_records d)\<rparr>))
         | None \<Rightarrow>
             (let attendance =
                   \<lparr>a_id = next_id (map a_id (attendance_records d)),
                    a_session_id = session_id,
                    a_student_id = student_id,
                    a_status = status,
                    a_marked_at = utcnow clk,
                    a_marked_by = Some (py_int current_user_id),
                    a_notes = mk_notes data\<rparr>
              in (Inr (Marked attendance),
                  d\<lparr>attendance_records := attendance_records d @ [attendance]\<rparr>))))))))))))"

section \<open>Enrollment (routes/courses.py, enroll_student)\<close>

datatype enroll_response = Reactivated | Enrolled enrollment

fun enroll_status :: "enroll_response \<Rightarrow> nat" where
  "enroll_status Reactivated = 200"
| "enroll_status (Enrolled e) = 201"

definition enroll_student ::
  "clock \<Rightarrow> db \<Rightarrow> jwt_identity \<Rightarrow> int \<Rightarrow> (error + enroll_response) \<times> db" where
  "enroll_student clk d current_user_id course_id =
    (case query_get u_id (users d) (py_int current_user_id) of
       None \<Rightarrow> (Inl OnlyStudents, d)
     | Some usr \<Rightarrow>
        if u_role usr \<noteq> STUDENT then (Inl OnlyStudents, d)
        else (case student_profile d usr of
           None \<Rightarrow> (Inl StudentProfileNotFound, d)
         | Some prof \<Rightarrow>
        (case query_get c_id (courses d) course_id of
           None \<Rightarrow> (Inl CourseNotFound, d)
         | Some crs \<Rightarrow>
            if c_status crs \<noteq> ACTIVE then (Inl CourseNotActive, d)
            else
        (case find (\<lambda>e. e_student_id e = st_id prof \<and> e_course_id e = course_id) (enrollments d) of
           Some existing_enrollment \<Rightarrow>
             if e_is_active existing_enrollment then (Inl ConflictError, d)
             else (Inr Reactivated,
                   d\<lparr>enrollments :=
                       update_first (\<lambda>e. e_student_id e = st_id prof \<and> e_course_id e = course_id)
                         (\<lambda>e. e\<lparr>e_is_active := True\<rparr>) (enrollments d)\<rparr>)
         | None \<Rightarrow>
             (let enr = \<lparr>e_id = next_id (map e_id (enrollments d)),
                          e_student_id = st_id prof,
                          e_course_id = course_id,
                          e_enrolled_at = utcnow clk,
                          e_is_active = True\<rparr>
              in (Inr (Enrolled enr), d\<lparr>enrollments := enrollments d @ [enr]\<rparr>))))))"

section \<open>Example data\<close>

text \<open>
  A small campus on which the handlers are evaluated: an admin (user 1), the lecturer of
  course 21 (user 2) and four students. Student 11 and 14 are enrolled, student 12 was
  soft-removed after checking in once, student 13 never enrolled. Session 32 is closed.
\<close>

definition mk_time :: "nat \<Rightarrow> nat \<Rightarrow> pytime" where
  "mk_time h m = \<lparr>hour = h, minute = m, second = 0, microsecond = 0\<rparr>"

definition mk_date :: "nat \<Rightarrow> pydate" where
  "mk_date dd = \<lparr>year = 2025, month = 3, day = dd\<rparr>"

definition mk_datetime :: "nat \<Rightarrow> nat \<Rightarrow> nat \<Rightarrow> pydatetime" where
  "mk_datetime dd h m = \<lparr>dt_date = mk_date dd, dt_time = mk_time h m\<rparr>"

definition mk_clock :: "nat \<Rightarrow> nat \<Rightarrow> nat \<Rightarrow> clock" where
  "mk_clock dd h m = \<lparr>now = mk_datetime dd h m, utcnow = mk_datetime dd (h - 1) m\<rparr>"

definition campus :: db where
  "campus =
    \<lparr>users = [\<lparr>u_id = 1, u_role = ADMIN\<rparr>, \<lparr>u_id = 2, u_role = LECTURER\<rparr>,
              \<lparr>u_id = 3, u_role = STUDENT\<rparr>, \<lparr>u_id = 4, u_role = STUDENT\<rparr>,
              \<lparr>u_id = 5, u_role = STUDENT\<rparr>, \<lparr>u_id = 6, u_role = STUDENT\<rparr>],
     students = [\<lparr>st_id = 11, st_user_id = 3\<rparr>, \<lparr>st_id = 12, st_user_id = 4\<rparr>,
                 \<lparr>st_id = 13, st_user_id = 5\<rparr>, \<lparr>st_id = 14, st_user_id = 6\<rparr>],
     courses = [\<lparr>c_id = 21, c_lecturer_id = 2, c_status = ACTIVE\<rparr>],
     enrollments =
       [\<lparr>e_id = 51, e_student_id = 11, e_course_id = 21,
         e_enrolled_at = mk_datetime 1 8 0, e_is_active = True\<rparr>,
        \<lparr>e_id = 52, e_student_id = 12, e_course_id = 21,
         e_enrolled_at = mk_datetime 1 8 0, e_is_active = False\<rparr>,
        \<lparr>e_id = 53, e_student_id = 14, e_course_id = 21,
         e_enrolled_at = mk_datetime 2 8 0, e_is_active = True\<rparr>],
     sessions =
       [\<lparr>s_id = 31, s_course_id = 21, s_session_date = mk_date 10,
         s_start_time = mk_time 9 0, s_end_time = mk_time 10 0, s_attendance_open = True\<rparr>,
        \<lparr>s_id = 32, s_course_id = 21, s_session_date = mk_date 12,
         s_start_time = mk_time 9 0, s_end_time = mk_time 10 0, s_attendance_open = False\<rparr>,
        \<lparr>s_id = 33, s_course_id = 21, s_session_date = mk_date 14,
         s_start_time = mk_time 9 0, s_end_time = mk_time 10 0, s_attendance_open = True\<rparr>],
     attendance_records =
       [\<lparr>a_id = 41, a_session_id = 31, a_student_id = 11, a_status = PRESENT,
         a_marked_at = mk_datetime 10 7 58, a_marked_by = Some 3, a_notes = None\<rparr>,
        \<lparr>a_id = 42, a_session_id = 32, a_student_id = 11, a_status = ABSENT,
         a_marked_at = mk_datetime 12 9 30, a_marked_by = Some 2, a_notes = None\<rparr>,
        \<lparr>a_id = 43, a_session_id = 33, a_student_id = 11, a_status = EXCUSED,
         a_marked_at = mk_datetime 14 9 30, a_marked_by = Some 2, a_notes = Some ''medical''\<rparr>,
        \<lparr>a_id = 44, a_session_id = 31, a_student_id = 12, a_status = LATE,
         a_marked_at = mk_datetime 10 8 5, a_marked_by = Some 4, a_notes = None\<rparr>]\<rparr>"

section \<open>Properties of the check-in\<close>

lemma time_gt_irrefl: "\<not> time_gt t t"
  by (simp add: time_gt_def)

lemma time_gt_asym: "time_gt a b \<Longrightarrow> \<not> time_gt b a"
  by (auto simp: time_gt_def)

lemma time_gt_total: "time_gt a b \<or> a = b \<or> time_gt b a"
  by (cases a, cases b) (auto simp: time_gt_def)

text \<open>
  C1. A student with a profile and an active enrollment checks in on an open session
  for which there is no record yet: the request succeeds and appends exactly one record,
  whose status is LATE when the time of day of the local clock is strictly after the
  session's start time, and PRESENT when it is equal or before. Only the time of day is
  compared: changing the date of the clock changes nothing, and the date of the session
  is not read.
\<close>

theorem checkin_classification:
  assumes usr: "query_get u_id (users d) (py_int uid) = Some usr"
    and role: "u_role usr = STUDENT"
    and prof: "student_profile d usr = Some prof"
    and sid: "req_session_id data = Some sid" "sid \<noteq> 0"
    and sess: "query_get s_id (sessions d) sid = Some sess"
    and opn: "s_attendance_open sess"
    and enr: "active_enrollment d (st_id prof) (s_course_id sess) = Some enr"
    and fresh: "existing_attendance d sid (st_id prof) = None"
  shows "\<exists>a. checkin clk d uid data =
              (Inr a, d\<lparr>attendance_records := attendance_records d @ [a]\<rparr>) \<and>
             a_session_id a = sid \<and> a_student_id a = st_id prof \<and>
             (time_gt (dt_time (now clk)) (s_start_time sess) \<longrightarrow> a_status a = LATE) \<and>
             (dt_time (now clk) = s_start_time sess \<or>
              time_gt (s_start_time sess) (dt_time (now clk)) \<longrightarrow> a_status a = PRESENT) \<and>
             (\<forall>today. checkin (clk\<lparr>now := (now clk)\<lparr>dt_date := today\<rparr>\<rparr>) d uid data =
                      checkin clk d uid data)"
  using assms
  by (auto simp: checkin_def checkin_status_def Let_def time_gt_irrefl dest: time_gt_asym)

theorem checkin_classification_witness:
  "(\<exists>a. fst (checkin (mk_clock 10 9 5) campus (Sub 6) \<lparr>req_session_id = Some 31\<rparr>) = Inr a \<and>
        a_status a = LATE) \<and>
   (\<exists>a. fst (checkin (mk_clock 10 9 0) campus (Sub 6) \<lparr>req_session_id = Some 31\<rparr>) = Inr a \<and>
        a_status a = PRESENT) \<and>
   (\<exists>a. fst (checkin (mk_clock 11 8 59) campus (Sub 6) \<lparr>req_session_id = Some 31\<rparr>) = Inr a \<and>
        a_status a = PRESENT) \<and>
   (\<exists>a. fst (checkin (mk_clock 15 9 5) campus (Sub 6) \<lparr>req_session_id = Some 33\<rparr>) = Inr a \<and>
        a_status a = LATE)"
proof -
  let ?u = "\<lparr>u_id = 6, u_role = STUDENT\<rparr>"
  let ?p = "\<lparr>st_id = 14, st_user_id = 6\<rparr>"
  let ?e = "\<lparr>e_id = 53, e_student_id = 14, e_course_id = 21,
             e_enrolled_at = mk_datetime 2 8 0, e_is_active = True\<rparr>"
  let ?s31 = "\<lparr>s_id = 31, s_course_id = 21, s_session_date = mk_date 10,
         s_start_time = mk_time 9 0, s_end_time = mk_time 10 0, s_attendance_open = True\<rparr>"
  let ?s33 = "\<lparr>s_id = 33, s_course_id = 21, s_session_date = mk_date 14,
         s_start_time = mk_time 9 0, s_end_time = mk_time 10 0, s_attendance_open = True\<rparr>"
  have u: "query_get u_id (users campus) (py_int (Sub 6)) = Some ?u" by code_simp
  have r: "u_role ?u = STUDENT" by simp
  have p: "student_profile campus ?u = Some ?p" by code_simp
  have q31: "req_session_id \<lparr>req_session_id = Some 31\<rparr> = Some 31" "(31::int) \<noteq> 0" by simp_all
  have q33: "req_session_id \<lparr>req_session_id = Some 33\<rparr> = Some 33" "(33::int) \<noteq> 0" by simp_all
  have s31: "query_get s_id (sessions campus) 31 = Some ?s31" by code_simp
  have s33: "query_get s_id (sessions campus) 33 = Some ?s33" by code_simp
  have o31: "s_attendance_open ?s31" and o33: "s_attendance_open ?s33" by simp_all
  have e31: "active_enrollment campus (st_id ?p) (s_course_id ?s31) = Some ?e" by code_simp
  have e33: "active_enrollment campus (st_id ?p) (s_course_id ?s33) = Some ?e" by code_simp
  have f31: "existing_attendance campus 31 (st_id ?p) = None" by code_simp
  have f33: "existing_attendance campus 33 (st_id ?p) = None" by code_simp
  note c31 = checkin_classification [OF u r p q31 s31 o31 e31 f31]
  note c33 = checkin_classification [OF u r p q33 s33 o33 e33 f33]
  have late: "time_gt (dt_time (now (mk_clock 10 9 5))) (s_start_time ?s31)" by code_simp
  have sharp: "dt_time (now (mk_clock 10 9 0)) = s_start_time ?s31" by code_simp
  have early: "time_gt (s_start_time ?s31) (dt_time (now (mk_clock 11 8 59)))" by code_simp
  have late33: "time_gt (dt_time (now (mk_clock 15 9 5))) (s_start_time ?s33)" by code_simp
  from c31 [of "mk_clock 10 9 5"] late have 1: "\<exists>a. fst (checkin (mk_clock 10 9 5) campus (Sub 6)
      \<lparr>req_session_id = Some 31\<rparr>) = Inr a \<and> a_status a = LATE"
    by (metis fst_conv)
  from c31 [of "mk_clock 10 9 0"] sharp have 2: "\<exists>a. fst (checkin (mk_clock 10 9 0) campus (Sub 6)
      \<lparr>req_session_id = Some 31\<rparr>) = Inr a \<and> a_status a = PRESENT"
    by (metis fst_conv)
  from c31 [of "mk_clock 11 8 59"] early have 3: "\<exists>a. fst (checkin (mk_clock 11 8 59) campus (Sub 6)
      \<lparr>req_session_id = Some 31\<rparr>) = Inr a \<and> a_status a = PRESENT"
    by (metis fst_conv)
  from c33 [of "mk_clock 15 9 5"] late33 have 4: "\<exists>a. fst (checkin (mk_clock 15 9 5) campus (Sub 6)
      \<lparr>req_session_id = Some 33\<rparr>) = Inr a \<and> a_status a = LATE"
    by (metis fst_conv)
  from 1 2 3 4 show ?thesis by blast
qed

text \<open>
  C2. For a request of a student with a profile on an existing session, the checks are
  made in this order: a closed session gives SessionClosed whatever the clock, the
  enrollments and the records are; an open session without an active enrollment gives
  NotEnrolled, also when a record exists; an open session of an enrolled student with a
  record gives DuplicateCheckIn. Every failure leaves the database as it was.
\<close>

theorem checkin_failure_contract:
  assumes usr: "query_get u_id (users d) (py_int uid) = Some usr"
    and role: "u_role usr = STUDENT"
    and prof: "student_profile d usr = Some prof"
    and sid: "req_session_id data = Some sid" "sid \<noteq> 0"
    and sess: "query_get s_id (sessions d) sid = Some sess"
  shows "(\<not> s_attendance_open sess \<longrightarrow> checkin clk d uid data = (Inl SessionClosed, d)) \<and>
         (s_attendance_open sess \<and>
          active_enrollment d (st_id prof) (s_course_id sess) = None \<longrightarrow>
            checkin clk d uid data = (Inl NotEnrolled, d)) \<and>
         (\<forall>r. s_attendance_open sess \<and>
              active_enrollment d (st_id prof) (s_course_id sess) \<noteq> None \<and>
              existing_attendance d sid (st_id prof) = Some r \<longrightarrow>
            checkin clk d uid data = (Inl (DuplicateCheckIn r), d)) \<and>
         (\<forall>e. fst (checkin clk d uid data) = Inl e \<longrightarrow> snd (checkin clk d uid data) = d)"
  using assms
  by (auto simp: checkin_def Let_def split: option.splits)

theorem checkin_failure_contract_witness:
  "checkin (mk_clock 12 8 50) campus (Sub 5) \<lparr>req_session_id = Some 32\<rparr> =
     (Inl SessionClosed, campus) \<and>
   checkin (mk_clock 10 8 50) campus (Sub 4) \<lparr>req_session_id = Some 31\<rparr> =
     (Inl NotEnrolled, campus) \<and>
   checkin (mk_clock 10 8 50) campus (Sub 3) \<lparr>req_session_id = Some 31\<rparr> =
     (Inl (DuplicateCheckIn
        \<lparr>a_id = 41, a_session_id = 31, a_student_id = 11, a_status = PRESENT,
         a_marked_at = mk_datetime 10 7 58, a_marked_by = Some 3, a_notes = None\<rparr>), campus)"
proof -
  let ?s31 = "\<lparr>s_id = 31, s_course_id = 21, s_session_date = mk_date 10,
         s_start_time = mk_time 9 0, s_end_time = mk_time 10 0, s_attendance_open = True\<rparr>"
  let ?s32 = "\<lparr>s_id = 32, s_course_id = 21, s_session_date = mk_date 12,
         s_start_time = mk_time 9 0, s_end_time = mk_time 10 0, s_attendance_open = False\<rparr>"
  let ?r41 = "\<lparr>a_id = 41, a_session_id = 31, a_student_id = 11, a_status = PRESENT,
         a_marked_at = mk_datetime 10 7 58, a_marked_by = Some 3, a_notes = None\<rparr>"
  have q31: "req_session_id \<lparr>req_session_id = Some 31\<rparr> = Some 31" "(31::int) \<noteq> 0" by simp_all
  have q32: "req_session_id \<lparr>req_session_id = Some 32\<rparr> = Some 32" "(32::int) \<noteq> 0" by simp_all
  have s31: "query_get s_id (sessions campus) 31 = Some ?s31" by code_simp
  have s32: "query_get s_id (sessions campus) 32 = Some ?s32" by code_simp
  have u5: "query_get u_id (users campus) (py_int (Sub 5)) = Some \<lparr>u_id = 5, u_role = STUDENT\<rparr>"
    by code_simp
  have p5: "student_profile campus \<lparr>u_id = 5, u_role = STUDENT\<rparr> = Some \<lparr>st_id = 13, st_user_id = 5\<rparr>"
    by code_simp
  have u4: "query_get u_id (users campus) (py_int (Sub 4)) = Some \<lparr>u_id = 4, u_role = STUDENT\<rparr>"
    by code_simp
  have p4: "student_profile campus \<lparr>u_id = 4, u_role = STUDENT\<rparr> = Some \<lparr>st_id = 12, st_user_id = 4\<rparr>"
    by code_simp
  have u3: "query_get u_id (users campus) (py_int (Sub 3)) = Some \<lparr>u_id = 3, u_role = STUDENT\<rparr>"
    by code_simp
  have p3: "student_profile campus \<lparr>u_id = 3, u_role = STUDENT\<rparr> = Some \<lparr>st_id = 11, st_user_id = 3\<rparr>"
    by code_simp
  have closed: "\<not> s_attendance_open ?s32" by simp
  have none4: "s_attendance_open ?s31 \<and>
      active_enrollment campus (st_id \<lparr>st_id = 12, st_user_id = 4\<rparr>) (s_course_id ?s31) = None"
    by code_simp
  have dup3: "s_attendance_open ?s31 \<and>
      active_enrollment campus (st_id \<lparr>st_id = 11, st_user_id = 3\<rparr>) (s_course_id ?s31) \<noteq> None \<and>
      existing_attendance campus 31 (st_id \<lparr>st_id = 11, st_user_id = 3\<rparr>) = Some ?r41"
    by code_simp
  from checkin_failure_contract [OF u5 _ p5 q32 s32, of "mk_clock 12 8 50"] closed
  have 1: "checkin (mk_clock 12 8 50) campus (Sub 5) \<lparr>req_session_id = Some 32\<rparr> =
     (Inl SessionClosed, campus)" by simp
  from checkin_failure_contract [OF u4 _ p4 q31 s31, of "mk_clock 10 8 50"] none4
  have 2: "checkin (mk_clock 10 8 50) campus (Sub 4) \<lparr>req_session_id = Some 31\<rparr> =
     (Inl NotEnrolled, campus)" by simp
  from checkin_failure_contract [OF u3 _ p3 q31 s31, of "mk_clock 10 8 50"] dup3
  have 3: "checkin (mk_clock 10 8 50) campus (Sub 3) \<lparr>req_session_id = Some 31\<rparr> =
     (Inl (DuplicateCheckIn ?r41), campus)" by simp
  from 1 2 3 show ?thesis by simp
qed

section \<open>Properties of the session view\<close>

lemma status_not_present_late:
  "(a_status r \<noteq> PRESENT \<and> a_status r \<noteq> LATE) = (a_status r = ABSENT \<or> a_status r = EXCUSED)"
  by (cases "a_status r") auto

lemma count_present_plus_other:
  "int (length (filter (\<lambda>r. a_status r \<in> set [PRESENT, LATE]) recs)) +
   int (length (filter (\<lambda>r. a_status r = ABSENT \<or> a_status r = EXCUSED) recs)) =
   int (length recs)"
proof -
  have "filter (\<lambda>r. a_status r = ABSENT \<or> a_status r = EXCUSED) recs =
        filter (\<lambda>r. \<not> a_status r \<in> set [PRESENT, LATE]) recs"
    by (rule filter_cong) (auto simp: status_not_present_late)
  then show ?thesis
    using sum_length_filter_compl [of "\<lambda>r. a_status r \<in> set [PRESENT, LATE]" recs] by simp
qed

text \<open>
  C5. When the lecturer who owns the course views a session, the response has one entry
  for every student with an active enrollment in the session's course, in roster order;
  total_enrolled is the number of those students, total_present the number of the
  session's records with status PRESENT or LATE, and total_absent is total_enrolled
  minus the number of records found for the session (a Python int, so it may be
  negative). An enrolled student without a record has the synthesized entry, whose
  status is ABSENT and whose marked_at is None.
\<close>

theorem session_view_counts:
  assumes usr: "query_get u_id (users d) (py_int uid) = Some usr"
    and role: "u_role usr = LECTURER"
    and sess: "query_get s_id (sessions d) sid = Some sess"
    and crs: "query_get c_id (courses d) (s_course_id sess) = Some crs"
    and own: "c_lecturer_id crs = py_int uid"
  shows "\<exists>v. get_session_attendance d uid sid = Inr (LecturerSession sess v) \<and>
           ss_total_enrolled v =
             int (length (filter (\<lambda>s. \<exists>e\<in>set (enrollments d). e_student_id e = st_id s \<and>
                    e_course_id e = s_course_id sess \<and> e_is_active e) (students d))) \<and>
           ss_total_present v =
             int (length (filter (\<lambda>r. a_session_id r = sid \<and>
                    (a_status r = PRESENT \<or> a_status r = LATE)) (attendance_records d))) \<and>
           ss_total_absent v =
             ss_total_enrolled v -
             int (length (filter (\<lambda>r. a_session_id r = sid) (attendance_records d))) \<and>
           map fst (ss_attendance_records v) = enrolled_students d (s_course_id sess) \<and>
           (\<forall>stu\<in>set (enrolled_students d (s_course_id sess)).
              (\<forall>r\<in>set (attendance_records d).
                 \<not> (a_session_id r = sid \<and> a_student_id r = st_id stu)) \<longrightarrow>
              (stu, AbsentDict) \<in> set (ss_attendance_records v)) \<and>
           dict_status AbsentDict = ''ABSENT'' \<and> dict_marked_at AbsentDict = None"
proof -
  let ?recs = "filter (\<lambda>r. a_session_id r = sid) (attendance_records d)"
  let ?enrolled = "enrolled_students d (s_course_id sess)"
  let ?v = "session_attendance_summary ?enrolled ?recs"
  have res: "get_session_attendance d uid sid = Inr (LecturerSession sess ?v)"
    using assms by (simp add: get_session_attendance_def)
  have enr: "ss_total_enrolled ?v =
      int (length (filter (\<lambda>s. \<exists>e\<in>set (enrollments d). e_student_id e = st_id s \<and>
             e_course_id e = s_course_id sess \<and> e_is_active e) (students d)))"
    by (simp add: session_attendance_summary_def enrolled_students_def list_ex_iff)
  have pres: "ss_total_present ?v =
      int (length (filter (\<lambda>r. a_session_id r = sid \<and>
             (a_status r = PRESENT \<or> a_status r = LATE)) (attendance_records d)))"
    by (simp add: session_attendance_summary_def conj_commute)
  have abs: "ss_total_absent ?v = ss_total_enrolled ?v - int (length ?recs)"
    by (simp add: session_attendance_summary_def)
  have fsts: "map fst (ss_attendance_records ?v) = ?enrolled"
    by (simp add: session_attendance_summary_def comp_def)
  have synth: "\<forall>stu\<in>set ?enrolled.
      (\<forall>r\<in>set (attendance_records d). \<not> (a_session_id r = sid \<and> a_student_id r = st_id stu)) \<longrightarrow>
      (stu, AbsentDict) \<in> set (ss_attendance_records ?v)"
  proof (intro ballI impI)
    fix stu
    assume mem: "stu \<in> set ?enrolled"
      and none: "\<forall>r\<in>set (attendance_records d). \<not> (a_session_id r = sid \<and> a_student_id r = st_id stu)"
    then have "find (\<lambda>record. a_student_id record = st_id stu) ?recs = None"
      by (auto simp: find_None_iff)
    then have "(stu, to_dict_or_absent (find (\<lambda>record. a_student_id record = st_id stu) ?recs)) =
               (stu, AbsentDict)"
      by (simp add: to_dict_or_absent_def)
    with mem show "(stu, AbsentDict) \<in> set (ss_attendance_records ?v)"
      by (force simp: session_attendance_summary_def image_iff)
  qed
  from res enr pres abs fsts synth show ?thesis by (intro exI [of _ ?v]) simp
qed

text \<open>
  C10. In the same view an explicit record with status ABSENT or EXCUSED is counted in
  neither total_present nor total_absent: the two totals add up to total_enrolled minus
  the number of such records of the session. So their sum is at most total_enrolled,
  and strictly less as soon as one such record exists.
\<close>

theorem session_view_accounting_gap:
  assumes usr: "query_get u_id (users d) (py_int uid) = Some usr"
    and role: "u_role usr = LECTURER"
    and sess: "query_get s_id (sessions d) sid = Some sess"
    and crs: "query_get c_id (courses d) (s_course_id sess) = Some crs"
    and own: "c_lecturer_id crs = py_int uid"
  shows "\<exists>v. get_session_attendance d uid sid = Inr (LecturerSession sess v) \<and>
           ss_total_present v + ss_total_absent v =
             ss_total_enrolled v -
             int (length (filter (\<lambda>r. a_session_id r = sid \<and>
                    (a_status r = ABSENT \<or> a_status r = EXCUSED)) (attendance_records d))) \<and>
           ss_total_present v + ss_total_absent v \<le> ss_total_enrolled v \<and>
           ((\<exists>r\<in>set (attendance_records d). a_session_id r = sid \<and>
                (a_status r = ABSENT \<or> a_status r = EXCUSED)) \<longrightarrow>
            ss_total_present v + ss_total_absent v < ss_total_enrolled v)"
proof -
  let ?recs = "filter (\<lambda>r. a_session_id r = sid) (attendance_records d)"
  let ?enrolled = "enrolled_students d (s_course_id sess)"
  let ?v = "session_attendance_summary ?enrolled ?recs"
  let ?gap = "filter (\<lambda>r. a_session_id r = sid \<and>
                 (a_status r = ABSENT \<or> a_status r = EXCUSED)) (attendance_records d)"
  have res: "get_session_attendance d uid sid = Inr (LecturerSession sess ?v)"
    using assms by (simp add: get_session_attendance_def)
  have gap: "filter (\<lambda>r. a_status r = ABSENT \<or> a_status r = EXCUSED) ?recs = ?gap"
    by (simp add: conj_commute)
  have eq: "ss_total_present ?v + ss_total_absent ?v = ss_total_enrolled ?v - int (length ?gap)"
    using count_present_plus_other [of ?recs]
    by (simp add: session_attendance_summary_def gap)
  have strict: "(\<exists>r\<in>set (attendance_records d). a_session_id r = sid \<and>
                (a_status r = ABSENT \<or> a_status r = EXCUSED)) \<Longrightarrow> 0 < length ?gap"
    by (auto simp: filter_empty_conv)
  from res eq strict show ?thesis
    by (intro exI [of _ ?v]) auto
qed

theorem session_view_counts_witness:
  "\<exists>s v. get_session_attendance campus (Sub 2) 31 = Inr (LecturerSession s v) \<and> s_id s = 31 \<and>
      ss_total_enrolled v = 2 \<and> ss_total_present v = 2 \<and> ss_total_absent v = 0 \<and>
      map (st_id \<circ> fst) (ss_attendance_records v) = [11, 14] \<and>
      (\<lparr>st_id = 14, st_user_id = 6\<rparr>, AbsentDict) \<in> set (ss_attendance_records v)"
proof -
  let ?s31 = "\<lparr>s_id = 31, s_course_id = 21, s_session_date = mk_date 10,
         s_start_time = mk_time 9 0, s_end_time = mk_time 10 0, s_attendance_open = True\<rparr>"
  let ?c = "\<lparr>c_id = 21, c_lecturer_id = 2, c_status = ACTIVE\<rparr>"
  let ?stu = "\<lparr>st_id = 14, st_user_id = 6\<rparr>"
  have u: "query_get u_id (users campus) (py_int (Sub 2)) = Some \<lparr>u_id = 2, u_role = LECTURER\<rparr>"
    by code_simp
  have s: "query_get s_id (sessions campus) 31 = Some ?s31" by code_simp
  have c: "query_get c_id (courses campus) (s_course_id ?s31) = Some ?c" by code_simp
  have o: "c_lecturer_id ?c = py_int (Sub 2)" by simp
  from session_view_counts [OF u _ s c o] obtain v where
    res: "get_session_attendance campus (Sub 2) 31 = Inr (LecturerSession ?s31 v)"
    and enr: "ss_total_enrolled v =
             int (length (filter (\<lambda>s. \<exists>e\<in>set (enrollments campus). e_student_id e = st_id s \<and>
                    e_course_id e = s_course_id ?s31 \<and> e_is_active e) (students campus)))"
    and pres: "ss_total_present v =
             int (length (filter (\<lambda>r. a_session_id r = 31 \<and>
                    (a_status r = PRESENT \<or> a_status r = LATE)) (attendance_records campus)))"
    and abs: "ss_total_absent v = ss_total_enrolled v -
             int (length (filter (\<lambda>r. a_session_id r = 31) (attendance_records campus)))"
    and fsts: "map fst (ss_attendance_records v) = enrolled_students campus (s_course_id ?s31)"
    and synth: "\<forall>stu\<in>set (enrolled_students campus (s_course_id ?s31)).
              (\<forall>r\<in>set (attendance_records campus).
                 \<not> (a_session_id r = 31 \<and> a_student_id r = st_id stu)) \<longrightarrow>
              (stu, AbsentDict) \<in> set (ss_attendance_records v)"
    by auto
  have n1: "int (length (filter (\<lambda>s. \<exists>e\<in>set (enrollments campus). e_student_id e = st_id s \<and>
                    e_course_id e = s_course_id ?s31 \<and> e_is_active e) (students campus))) = 2"
    by code_simp
  have n2: "int (length (filter (\<lambda>r. a_session_id r = 31 \<and>
                    (a_status r = PRESENT \<or> a_status r = LATE)) (attendance_records campus))) = 2"
    by code_simp
  have n3: "int (length (filter (\<lambda>r. a_session_id r = 31) (attendance_records campus))) = 2"
    by code_simp
  have n4: "map st_id (enrolled_students campus (s_course_id ?s31)) = [11, 14]" by code_simp
  have m: "?stu \<in> set (enrolled_students campus (s_course_id ?s31))" by code_simp
  have none: "\<forall>r\<in>set (attendance_records campus).
                 \<not> (a_session_id r = 31 \<and> a_student_id r = st_id ?stu)" by code_simp
  from synth m none have a: "(?stu, AbsentDict) \<in> set (ss_attendance_records v)" by blast
  from fsts n4 have ids: "map (st_id \<circ> fst) (ss_attendance_records v) = [11, 14]"
    by (metis map_map)
  from res enr pres abs n1 n2 n3 ids a show ?thesis
    by (intro exI [of _ ?s31] exI [of _ v]) simp
qed

theorem session_view_accounting_gap_witness:
  "\<exists>s v. get_session_attendance campus (Sub 2) 32 = Inr (LecturerSession s v) \<and> s_id s = 32 \<and>
      ss_total_present v + ss_total_absent v = ss_total_enrolled v - 1 \<and>
      ss_total_present v + ss_total_absent v < ss_total_enrolled v"
proof -
  let ?s32 = "\<lparr>s_id = 32, s_course_id = 21, s_session_date = mk_date 12,
         s_start_time = mk_time 9 0, s_end_time = mk_time 10 0, s_attendance_open = False\<rparr>"
  let ?c = "\<lparr>c_id = 21, c_lecturer_id = 2, c_status = ACTIVE\<rparr>"
  have u: "query_get u_id (users campus) (py_int (Sub 2)) = Some \<lparr>u_id = 2, u_role = LECTURER\<rparr>"
    by code_simp
  have s: "query_get s_id (sessions campus) 32 = Some ?s32" by code_simp
  have c: "query_get c_id (courses campus) (s_course_id ?s32) = Some ?c" by code_simp
  have o: "c_lecturer_id ?c = py_int (Sub 2)" by simp
  have n: "int (length (filter (\<lambda>r. a_session_id r = 32 \<and>
                    (a_status r = ABSENT \<or> a_status r = EXCUSED)) (attendance_records campus))) = 1"
    by code_simp
  have ex: "\<exists>r\<in>set (attendance_records campus). a_session_id r = 32 \<and>
                (a_status r = ABSENT \<or> a_status r = EXCUSED)"
    by code_simp
  from session_view_accounting_gap [OF u _ s c o] n ex show ?thesis
    by (intro exI [of _ ?s32]) auto
qed

end
